theory Spec2Isabelle
  imports Main "HOL-Library.Word"
begin

section \<open>Bytes, instants and errors\<close>

text \<open>
  Go's \<^verbatim>\<open>[]byte\<close> is a list of 8-bit words.  A \<^verbatim>\<open>time.Time\<close> is modelled by the instant it
  denotes, as a signed number of nanoseconds counted from the zero instant of the type, so
  that \<^verbatim>\<open>IsZero\<close>, \<^verbatim>\<open>Before\<close> and \<^verbatim>\<open>After\<close> are comparisons of integers.
\<close>

type_synonym byte = "8 word"
type_synonym bytes = "byte list"
type_synonym time = int

definition IsZero :: "time \<Rightarrow> bool" where
  "IsZero t = (t = 0)"



definition bytes_of_string :: "string \<Rightarrow> bytes" where
  "bytes_of_string s = map (\<lambda>c. of_nat (of_char c)) s"

text \<open>
  Errors are values.  \<^verbatim>\<open>ErrKeyNotFound\<close> and \<^verbatim>\<open>ErrKeyInactive\<close> are the two sentinels of
  package keystore, compared by identity in \<^verbatim>\<open>keyError\<close>; every other error is built by
  \<^verbatim>\<open>fmt.Errorf\<close> and carries its message.
\<close>

datatype error = ErrKeyNotFound | ErrKeyInactive | Errorf string

fun Error :: "error \<Rightarrow> string" where
  "Error ErrKeyNotFound = ''key not found''"
| "Error ErrKeyInactive = ''key is not active''"
| "Error (Errorf m) = m"

definition digit :: "nat \<Rightarrow> char" where
  "digit n = ''0123456789'' ! (n mod 10)"

fun itoa_nat :: "nat \<Rightarrow> string" where
  "itoa_nat n = (if n < 10 then [digit n] else itoa_nat (n div 10) @ [digit n])"

definition itoa :: "int \<Rightarrow> string" where
  "itoa i = (if i < 0 then CHR ''-'' # itoa_nat (nat (- i)) else itoa_nat (nat i))"

section \<open>Package keystore: the data model\<close>

type_synonym KeyAlgorithm = int

definition AlgorithmECDSAP256 :: KeyAlgorithm where
  "AlgorithmECDSAP256 = 1"

definition AlgorithmECDSAP384 :: KeyAlgorithm where
  "AlgorithmECDSAP384 = 2"

type_synonym KeyStatus = int

definition StatusActive :: KeyStatus where
  "StatusActive = 1"

definition StatusRotated :: KeyStatus where
  "StatusRotated = 2"

definition StatusDeactivated :: KeyStatus where
  "StatusDeactivated = 3"

text \<open>
  \<^verbatim>\<open>ecdsa.PrivateKey\<close> embeds \<^verbatim>\<open>ecdsa.PublicKey\<close> (curve and point) and adds the scalar.
\<close>

datatype Curve = P224 | P256 | P384 | P521

record ecdsa_PublicKey =
  Curve :: Curve
  X :: int
  Y :: int

record ecdsa_PrivateKey = ecdsa_PublicKey +
  D :: int

definition PublicKey :: "ecdsa_PrivateKey \<Rightarrow> ecdsa_PublicKey" where
  "PublicKey k = \<lparr>Curve = Curve k, X = X k, Y = Y k\<rparr>"

record KeyEntry =
  ID :: string
  Algorithm :: KeyAlgorithm
  Status :: KeyStatus
  PrivateKey :: ecdsa_PrivateKey
  CreatedAt :: time
  RotatedAt :: time
  Labels :: "string \<rightharpoonup> string"

section \<open>The heap and the in-memory store\<close>

text \<open>
  The store maps identifiers to pointers (\<^verbatim>\<open>map[string]*KeyEntry\<close>), \<^verbatim>\<open>Get\<close> hands out the
  stored pointer and the handlers write through it, so the entries live in an explicit
  heap: a list of allocated entries, an address being an index.  \<^verbatim>\<open>&KeyEntry{...}\<close> allocates
  at the end.  The state also keeps the calls made to the audit logger and the key events
  handed to the fan-out, in order.
\<close>

type_synonym addr = nat

datatype pb_KeyAlgorithm =
  KEY_ALGORITHM_UNSPECIFIED | KEY_ALGORITHM_ECDSA_P256 | KEY_ALGORITHM_ECDSA_P384
  | KEY_ALGORITHM_unknown int

datatype pb_KeyStatus =
  KEY_STATUS_UNSPECIFIED | KEY_STATUS_ACTIVE | KEY_STATUS_ROTATED | KEY_STATUS_DEACTIVATED

datatype pb_KeyEventType =
  KEY_EVENT_TYPE_CREATED | KEY_EVENT_TYPE_ROTATED | KEY_EVENT_TYPE_DEACTIVATED

record KeyMetadata =
  KeyId :: string
  Algorithm_pb :: pb_KeyAlgorithm
  Status_pb :: pb_KeyStatus
  CreatedAt_pb :: time
  RotatedAt_pb :: "time option"
  Labels_pb :: "string \<rightharpoonup> string"

record KeyEvent =
  Type :: pb_KeyEventType
  Metadata :: KeyMetadata
  Timestamp_ev :: time

record LogCall =
  log_operation :: string
  log_keyID :: string
  log_status :: string
  log_peerAddr :: string
  log_metadata :: "string \<rightharpoonup> string"

record world =
  heap :: "KeyEntry list"
  keys :: "string \<rightharpoonup> addr"
  audit :: "LogCall list"
  published :: "KeyEvent list"

definition NewMemoryStore :: world where
  "NewMemoryStore = \<lparr>heap = [], keys = Map.empty, audit = [], published = []\<rparr>"

definition alloc :: "world \<Rightarrow> KeyEntry \<Rightarrow> addr \<times> world" where
  "alloc w e = (length (heap w), w\<lparr>heap := heap w @ [e]\<rparr>)"

definition Put :: "world \<Rightarrow> addr \<Rightarrow> error + world" where
  "Put w entry =
     (if keys w (ID (heap w ! entry)) \<noteq> None
      then Inl (Errorf (''key '' @ ID (heap w ! entry) @ '' already exists''))
      else Inr (w\<lparr>keys := (keys w)(ID (heap w ! entry) \<mapsto> entry)\<rparr>))"

definition Get :: "world \<Rightarrow> string \<Rightarrow> error + addr" where
  "Get w kid = (case keys w kid of None \<Rightarrow> Inl ErrKeyNotFound | Some entry \<Rightarrow> Inr entry)"

definition UpdateStatus :: "world \<Rightarrow> string \<Rightarrow> KeyStatus \<Rightarrow> error + world" where
  "UpdateStatus w kid st =
     (case keys w kid of
        None \<Rightarrow> Inl ErrKeyNotFound
      | Some entry \<Rightarrow> Inr (w\<lparr>heap := (heap w)[entry := (heap w ! entry)\<lparr>Status := st\<rparr>]\<rparr>))"

definition Delete :: "world \<Rightarrow> string \<Rightarrow> error + world" where
  "Delete w kid =
     (case keys w kid of
        None \<Rightarrow> Inl ErrKeyNotFound
      | Some _ \<Rightarrow> Inr (w\<lparr>keys := (keys w)(kid := None)\<rparr>))"

text \<open>
  Every pointer the store holds was allocated, and was stored under the identifier of the
  entry it points to (\<^verbatim>\<open>Put\<close> and \<^verbatim>\<open>load\<close> both index by the entry's own \<^verbatim>\<open>ID\<close>).
\<close>

definition wf :: "world \<Rightarrow> bool" where
  "wf w = (\<forall>kid entry. keys w kid = Some entry \<longrightarrow> entry < length (heap w) \<and> ID (heap w ! entry) = kid)"

section \<open>Package server: key management and signing\<close>

datatype grpc_code = NotFound | FailedPrecondition | Internal | InvalidArgument

datatype status_error = StatusError grpc_code string

text \<open>
  \<^verbatim>\<open>hsm.Provider\<close> is an interface: a record of its three methods.  The values drawn from
  outside during one call (the identifier from \<^verbatim>\<open>uuid.NewString\<close> and the readings of the
  clock, in the order the handler takes them) are the fields of \<open>env\<close>.
\<close>

record Provider =
  hsm_GenerateKey :: "Curve \<Rightarrow> error + ecdsa_PrivateKey"
  hsm_Sign :: "ecdsa_PrivateKey \<Rightarrow> bytes \<Rightarrow> error + bytes"
  hsm_Verify :: "ecdsa_PublicKey \<Rightarrow> bytes \<Rightarrow> bytes \<Rightarrow> bool"

record env =
  uuid_NewString :: string
  time_Now :: time
  time_Now2 :: time
  timestamppb_Now :: time

definition keyError :: "error \<Rightarrow> status_error" where
  "keyError err =
     (if err = ErrKeyNotFound then StatusError NotFound ''key not found''
      else StatusError Internal (Error err))"

definition resolveCurve :: "pb_KeyAlgorithm \<Rightarrow> status_error + Curve \<times> KeyAlgorithm" where
  "resolveCurve algo =
     (case algo of
        KEY_ALGORITHM_ECDSA_P256 \<Rightarrow> Inr (P256, AlgorithmECDSAP256)
      | KEY_ALGORITHM_UNSPECIFIED \<Rightarrow> Inr (P256, AlgorithmECDSAP256)
      | KEY_ALGORITHM_ECDSA_P384 \<Rightarrow> Inr (P384, AlgorithmECDSAP384)
      | KEY_ALGORITHM_unknown n \<Rightarrow>
          Inl (StatusError InvalidArgument (''unsupported algorithm: '' @ itoa n)))"

definition algoToProto :: "KeyAlgorithm \<Rightarrow> pb_KeyAlgorithm" where
  "algoToProto a =
     (if a = AlgorithmECDSAP256 then KEY_ALGORITHM_ECDSA_P256
      else if a = AlgorithmECDSAP384 then KEY_ALGORITHM_ECDSA_P384
      else KEY_ALGORITHM_UNSPECIFIED)"

definition statusToProto :: "KeyStatus \<Rightarrow> pb_KeyStatus" where
  "statusToProto s =
     (if s = StatusActive then KEY_STATUS_ACTIVE
      else if s = StatusRotated then KEY_STATUS_ROTATED
      else if s = StatusDeactivated then KEY_STATUS_DEACTIVATED
      else KEY_STATUS_UNSPECIFIED)"

definition entryToProto :: "KeyEntry \<Rightarrow> KeyMetadata" where
  "entryToProto e =
     \<lparr>KeyId = ID e, Algorithm_pb = algoToProto (Algorithm e), Status_pb = statusToProto (Status e),
      CreatedAt_pb = CreatedAt e,
      RotatedAt_pb = (if \<not> IsZero (RotatedAt e) then Some (RotatedAt e) else None),
      Labels_pb = Labels e\<rparr>"

definition broadcastEvent :: "env \<Rightarrow> world \<Rightarrow> pb_KeyEventType \<Rightarrow> KeyMetadata \<Rightarrow> world" where
  "broadcastEvent ev w eventType meta =
     w\<lparr>published := published w @ [\<lparr>Type = eventType, Metadata = meta, Timestamp_ev = timestamppb_Now ev\<rparr>]\<rparr>"

definition Log :: "world \<Rightarrow> string \<Rightarrow> string \<Rightarrow> string \<Rightarrow> string \<Rightarrow> (string \<rightharpoonup> string) \<Rightarrow> world" where
  "Log w op kid st peer md =
     w\<lparr>audit := audit w @ [\<lparr>log_operation = op, log_keyID = kid, log_status = st, log_peerAddr = peer,
                           log_metadata = md\<rparr>]\<rparr>"

definition GenerateKey ::
  "Provider \<Rightarrow> env \<Rightarrow> world \<Rightarrow> pb_KeyAlgorithm \<Rightarrow> (string \<rightharpoonup> string) \<Rightarrow> world \<times> (status_error + KeyMetadata)" where
  "GenerateKey h ev w req_Algorithm req_Labels =
     (case resolveCurve req_Algorithm of
        Inl err \<Rightarrow> (w, Inl err)
      | Inr (curve, algo) \<Rightarrow>
        (case hsm_GenerateKey h curve of
           Inl err \<Rightarrow> (w, Inl (StatusError Internal (''generate key: '' @ Error err)))
         | Inr key \<Rightarrow>
           (case alloc w \<lparr>ID = uuid_NewString ev, Algorithm = algo, Status = StatusActive,
                          PrivateKey = key, CreatedAt = time_Now ev, RotatedAt = 0,
                          Labels = req_Labels\<rparr> of
              (entry, w1) \<Rightarrow>
              (case Put w1 entry of
                 Inl err \<Rightarrow> (w1, Inl (StatusError Internal (''store key: '' @ Error err)))
               | Inr w2 \<Rightarrow>
                 (let meta = entryToProto (heap w2 ! entry);
                      w3 = broadcastEvent ev w2 KEY_EVENT_TYPE_CREATED meta;
                      w4 = Log w3 ''GenerateKey'' (ID (heap w3 ! entry)) ''OK'' '''' Map.empty
                  in (w4, Inr meta))))))"


text \<open>
  \<^verbatim>\<open>DeactivateKey\<close> drops the error of its \<^verbatim>\<open>Get\<close>; with a nil entry \<^verbatim>\<open>entryToProto\<close> would
  dereference nil, and \<^verbatim>\<open>RecoveryUnary\<close> turns the panic into \<^verbatim>\<open>Internal "internal error"\<close>.
\<close>

definition DeactivateKey :: "env \<Rightarrow> world \<Rightarrow> string \<Rightarrow> world \<times> (status_error + KeyMetadata)" where
  "DeactivateKey ev w req_KeyId =
     (case UpdateStatus w req_KeyId StatusDeactivated of
        Inl err \<Rightarrow> (w, Inl (keyError err))
      | Inr w1 \<Rightarrow>
        (case Get w1 req_KeyId of
           Inl _ \<Rightarrow> (w1, Inl (StatusError Internal ''internal error''))
         | Inr entry \<Rightarrow>
           (let meta = entryToProto (heap w1 ! entry);
                w2 = broadcastEvent ev w1 KEY_EVENT_TYPE_DEACTIVATED meta;
                w3 = Log w2 ''DeactivateKey'' req_KeyId ''OK'' '''' Map.empty
            in (w3, Inr meta))))"

record SignResponse =
  Signature :: bytes
  KeyId_resp :: string

definition Sign ::
  "Provider \<Rightarrow> world \<Rightarrow> string \<Rightarrow> bytes \<Rightarrow> world \<times> (status_error + SignResponse)" where
  "Sign h w req_KeyId req_Data =
     (case Get w req_KeyId of
        Inl err \<Rightarrow> (w, Inl (keyError err))
      | Inr entry \<Rightarrow>
        if Status (heap w ! entry) \<noteq> StatusActive
        then (w, Inl (StatusError FailedPrecondition ''key is not active''))
        else
        (case hsm_Sign h (PrivateKey (heap w ! entry)) req_Data of
           Inl err \<Rightarrow>
             (Log w ''Sign'' req_KeyId ''ERROR'' '''' Map.empty,
              Inl (StatusError Internal (''sign: '' @ Error err)))
         | Inr sig \<Rightarrow>
             (Log w ''Sign'' req_KeyId ''OK'' '''' Map.empty,
              Inr \<lparr>Signature = sig, KeyId_resp = req_KeyId\<rparr>)))"

definition Verify ::
  "Provider \<Rightarrow> world \<Rightarrow> string \<Rightarrow> bytes \<Rightarrow> bytes \<Rightarrow> world \<times> (status_error + bool)" where
  "Verify h w req_KeyId req_Data req_Signature =
     (case Get w req_KeyId of
        Inl err \<Rightarrow> (w, Inl (keyError err))
      | Inr entry \<Rightarrow>
        (let valid = hsm_Verify h (PublicKey (PrivateKey (heap w ! entry))) req_Data req_Signature
         in (Log w ''Verify'' req_KeyId ''OK'' '''' Map.empty, Inr valid)))"

section \<open>Package crypto\<close>

text \<open>
  The primitives of the Go libraries the package calls are taken as they come, in one
  record: the AEAD of \<^verbatim>\<open>cipher.NewGCM\<close> over an AES block (\<open>gcm_seal key nonce plaintext aad\<close>
  is the ciphertext followed by the tag, \<open>gcm_open\<close> its inverse, \<open>None\<close> when
  authentication fails), the output stream of \<^verbatim>\<open>hkdf.New(sha256.New, secret, salt, info)\<close>,
  and the PKCS#8 codec of \<^verbatim>\<open>crypto/x509\<close>.  What the package itself decides (key sizes
  accepted, framing, length checks, error wrapping) is written out.
\<close>

datatype parsed_key = ECDSA_key ecdsa_PrivateKey | Other_key

record crypto_lib =
  gcm_seal :: "bytes \<Rightarrow> bytes \<Rightarrow> bytes \<Rightarrow> bytes \<Rightarrow> bytes"
  gcm_open :: "bytes \<Rightarrow> bytes \<Rightarrow> bytes \<Rightarrow> bytes \<Rightarrow> bytes option"
  hkdf_sha256 :: "bytes \<Rightarrow> bytes \<Rightarrow> bytes \<Rightarrow> bytes"
  x509_MarshalPKCS8PrivateKey :: "ecdsa_PrivateKey \<Rightarrow> error + bytes"
  x509_ParsePKCS8PrivateKey :: "bytes \<Rightarrow> error + parsed_key"

text \<open>
  \<^verbatim>\<open>aes.NewCipher\<close> accepts keys of 16, 24 or 32 bytes (AES-128, AES-192, AES-256) and
  returns a \<^verbatim>\<open>KeySizeError\<close> otherwise; the block is represented by its key.
  \<^verbatim>\<open>cipher.NewGCM\<close> succeeds on every AES block, with the standard nonce size.
\<close>

definition aes_NewCipher :: "bytes \<Rightarrow> error + bytes" where
  "aes_NewCipher key =
     (if length key = 16 \<or> length key = 24 \<or> length key = 32 then Inr key
      else Inl (Errorf (''crypto/aes: invalid key size '' @ itoa (int (length key)))))"

definition cipher_NewGCM :: "bytes \<Rightarrow> error + bytes" where
  "cipher_NewGCM block = Inr block"

definition NonceSize :: nat where
  "NonceSize = 12"

text \<open>
  \<^verbatim>\<open>rand.Read\<close> fills a buffer of the given length from the system's generator, or fails;
  the generator is a stream of bytes when it works.
\<close>

definition rand_Read :: "(nat \<Rightarrow> byte) option \<Rightarrow> nat \<Rightarrow> error + bytes" where
  "rand_Read rnd n =
     (case rnd of
        None \<Rightarrow> Inl (Errorf ''crypto/rand: read failed'')
      | Some src \<Rightarrow> Inr (map src [0..<n]))"

definition Seal :: "crypto_lib \<Rightarrow> bytes \<Rightarrow> bytes \<Rightarrow> bytes \<Rightarrow> bytes \<Rightarrow> bytes \<Rightarrow> bytes" where
  "Seal lib gcm dst nonce plaintext aad = dst @ gcm_seal lib gcm nonce plaintext aad"

definition Open :: "crypto_lib \<Rightarrow> bytes \<Rightarrow> bytes \<Rightarrow> bytes \<Rightarrow> bytes \<Rightarrow> error + bytes" where
  "Open lib gcm nonce ciphertext aad =
     (case gcm_open lib gcm nonce ciphertext aad of
        None \<Rightarrow> Inl (Errorf ''cipher: message authentication failed'')
      | Some plaintext \<Rightarrow> Inr plaintext)"

definition EncryptAESGCM ::
  "crypto_lib \<Rightarrow> (nat \<Rightarrow> byte) option \<Rightarrow> bytes \<Rightarrow> bytes \<Rightarrow> bytes \<Rightarrow> error + bytes" where
  "EncryptAESGCM lib rnd key plaintext aad =
     (case aes_NewCipher key of
        Inl err \<Rightarrow> Inl (Errorf (''aes new cipher: '' @ Error err))
      | Inr block \<Rightarrow>
        (case cipher_NewGCM block of
           Inl err \<Rightarrow> Inl (Errorf (''aes gcm: '' @ Error err))
         | Inr gcm \<Rightarrow>
           (case rand_Read rnd NonceSize of
              Inl err \<Rightarrow> Inl (Errorf (''generate nonce: '' @ Error err))
            | Inr nonce \<Rightarrow> Inr (Seal lib gcm nonce nonce plaintext aad))))"

definition DecryptAESGCM :: "crypto_lib \<Rightarrow> bytes \<Rightarrow> bytes \<Rightarrow> bytes \<Rightarrow> error + bytes" where
  "DecryptAESGCM lib key ciphertext aad =
     (case aes_NewCipher key of
        Inl err \<Rightarrow> Inl (Errorf (''aes new cipher: '' @ Error err))
      | Inr block \<Rightarrow>
        (case cipher_NewGCM block of
           Inl err \<Rightarrow> Inl (Errorf (''aes gcm: '' @ Error err))
         | Inr gcm \<Rightarrow>
           if length ciphertext < NonceSize then Inl (Errorf ''ciphertext too short'')
           else
           (case Open lib gcm (take NonceSize ciphertext) (drop NonceSize ciphertext) aad of
              Inl err \<Rightarrow> Inl (Errorf (''aes gcm decrypt: '' @ Error err))
            | Inr plaintext \<Rightarrow> Inr plaintext)))"

text \<open>
  \<^verbatim>\<open>io.ReadFull\<close> on the HKDF reader either fills the whole buffer or fails; the reader
  fails when asked for more than its stream holds.
\<close>

definition io_ReadFull :: "bytes \<Rightarrow> nat \<Rightarrow> error + bytes" where
  "io_ReadFull r n =
     (if n \<le> length r then Inr (take n r) else Inl (Errorf ''hkdf: entropy limit reached''))"

definition crypto_DeriveKey :: "crypto_lib \<Rightarrow> bytes \<Rightarrow> bytes \<Rightarrow> int \<Rightarrow> error + bytes" where
  "crypto_DeriveKey lib rootKey context len =
     (if len \<le> 0 \<or> len > 64
      then Inl (Errorf (''invalid derived key length: '' @ itoa len @ '' (must be 1-64)''))
      else
      (case io_ReadFull (hkdf_sha256 lib rootKey [] context) (nat len) of
         Inl err \<Rightarrow> Inl (Errorf (''hkdf derive: '' @ Error err))
       | Inr derived \<Rightarrow> Inr derived))"

definition MarshalPrivateKey :: "crypto_lib \<Rightarrow> ecdsa_PrivateKey \<Rightarrow> error + bytes" where
  "MarshalPrivateKey lib key =
     (case x509_MarshalPKCS8PrivateKey lib key of
        Inl err \<Rightarrow> Inl (Errorf (''marshal private key: '' @ Error err))
      | Inr der \<Rightarrow> Inr der)"


section \<open>Package server: encryption\<close>

definition deriveSymmetricKey :: "crypto_lib \<Rightarrow> KeyEntry \<Rightarrow> error + bytes" where
  "deriveSymmetricKey lib entry =
     (case MarshalPrivateKey lib (PrivateKey entry) of
        Inl err \<Rightarrow> Inl err
      | Inr privBytes \<Rightarrow> crypto_DeriveKey lib privBytes (bytes_of_string ''vault-aes-gcm'') 32)"

record EncryptResponse =
  Ciphertext :: bytes
  KeyId_enc :: string

definition Encrypt ::
  "crypto_lib \<Rightarrow> (nat \<Rightarrow> byte) option \<Rightarrow> world \<Rightarrow> string \<Rightarrow> bytes \<Rightarrow> bytes
     \<Rightarrow> world \<times> (status_error + EncryptResponse)" where
  "Encrypt lib rnd w req_KeyId req_Plaintext req_Aad =
     (case Get w req_KeyId of
        Inl err \<Rightarrow> (w, Inl (keyError err))
      | Inr entry \<Rightarrow>
        if Status (heap w ! entry) \<noteq> StatusActive
        then (w, Inl (StatusError FailedPrecondition ''key is not active''))
        else
        (case deriveSymmetricKey lib (heap w ! entry) of
           Inl err \<Rightarrow> (w, Inl (StatusError Internal (''derive symmetric key: '' @ Error err)))
         | Inr symKey \<Rightarrow>
           (case EncryptAESGCM lib rnd symKey req_Plaintext req_Aad of
              Inl err \<Rightarrow>
                (Log w ''Encrypt'' req_KeyId ''ERROR'' '''' Map.empty,
                 Inl (StatusError Internal (''encrypt: '' @ Error err)))
            | Inr ct \<Rightarrow>
                (Log w ''Encrypt'' req_KeyId ''OK'' '''' Map.empty,
                 Inr \<lparr>Ciphertext = ct, KeyId_enc = req_KeyId\<rparr>))))"

definition Decrypt ::
  "crypto_lib \<Rightarrow> world \<Rightarrow> string \<Rightarrow> bytes \<Rightarrow> bytes \<Rightarrow> world \<times> (status_error + bytes)" where
  "Decrypt lib w req_KeyId req_Ciphertext req_Aad =
     (case Get w req_KeyId of
        Inl err \<Rightarrow> (w, Inl (keyError err))
      | Inr entry \<Rightarrow>
        (case deriveSymmetricKey lib (heap w ! entry) of
           Inl err \<Rightarrow> (w, Inl (StatusError Internal (''derive symmetric key: '' @ Error err)))
         | Inr symKey \<Rightarrow>
           (case DecryptAESGCM lib symKey req_Ciphertext req_Aad of
              Inl err \<Rightarrow>
                (Log w ''Decrypt'' req_KeyId ''ERROR'' '''' Map.empty,
                 Inl (StatusError InvalidArgument (''decrypt: '' @ Error err)))
            | Inr pt \<Rightarrow> (Log w ''Decrypt'' req_KeyId ''OK'' '''' Map.empty, Inr pt))))"

definition DeriveKey ::
  "crypto_lib \<Rightarrow> world \<Rightarrow> string \<Rightarrow> bytes \<Rightarrow> int \<Rightarrow> world \<times> (status_error + bytes)" where
  "DeriveKey lib w req_RootKeyId req_Context req_Length =
     (case Get w req_RootKeyId of
        Inl err \<Rightarrow> (w, Inl (keyError err))
      | Inr entry \<Rightarrow>
        if Status (heap w ! entry) \<noteq> StatusActive
        then (w, Inl (StatusError FailedPrecondition ''root key is not active''))
        else if req_Length \<le> 0 \<or> req_Length > 64
        then (w, Inl (StatusError InvalidArgument ''length must be 1-64 bytes''))
        else
        (case MarshalPrivateKey lib (PrivateKey (heap w ! entry)) of
           Inl err \<Rightarrow> (w, Inl (StatusError Internal (''marshal root key: '' @ Error err)))
         | Inr rootBytes \<Rightarrow>
           (case crypto_DeriveKey lib rootBytes req_Context req_Length of
              Inl err \<Rightarrow> (w, Inl (StatusError Internal (''derive key: '' @ Error err)))
            | Inr derived \<Rightarrow> (Log w ''DeriveKey'' req_RootKeyId ''OK'' '''' Map.empty, Inr derived))))"

section \<open>Package keystore: the persistent store\<close>

text \<open>
  \<^verbatim>\<open>persistedKey\<close> is the record written to the file.  The JSON codec and the outcome of
  the calls to the operating system are taken from outside, in \<open>sys\<close>; the type \<open>'f\<close> of a
  file's content is left open.  The file system is a map from paths to contents.  Go ranges
  over the map of keys in an order of its own choosing: \<open>save\<close> receives that order as the
  list of identifiers visited.
\<close>

record persistedKey =
  ID_json :: string
  Algorithm_json :: KeyAlgorithm
  Status_json :: KeyStatus
  PrivateKeyDER :: bytes
  CreatedAt_json :: time
  RotatedAt_json :: time
  Labels_json :: "string \<rightharpoonup> string"

record 'f sys =
  json_MarshalIndent :: "persistedKey list \<Rightarrow> error + 'f"
  json_Unmarshal :: "'f \<Rightarrow> error + persistedKey list"
  os_MkdirAll :: "error option"
  os_WriteFile :: "error option"
  os_Rename :: "error option"
  os_ReadFile :: "error option"

fun save_loop ::
  "crypto_lib \<Rightarrow> world \<Rightarrow> string list \<Rightarrow> persistedKey list \<Rightarrow> error + persistedKey list" where
  "save_loop lib w [] ks = Inr ks"
| "save_loop lib w (kid # rest) ks =
     (case keys w kid of
        None \<Rightarrow> save_loop lib w rest ks
      | Some e \<Rightarrow>
        (case MarshalPrivateKey lib (PrivateKey (heap w ! e)) of
           Inl err \<Rightarrow> Inl (Errorf (''marshal key '' @ ID (heap w ! e) @ '': '' @ Error err))
         | Inr der \<Rightarrow>
           save_loop lib w rest
             (ks @ [\<lparr>ID_json = ID (heap w ! e), Algorithm_json = Algorithm (heap w ! e),
                     Status_json = Status (heap w ! e), PrivateKeyDER = der,
                     CreatedAt_json = CreatedAt (heap w ! e),
                     RotatedAt_json = RotatedAt (heap w ! e),
                     Labels_json = Labels (heap w ! e)\<rparr>])))"

definition save ::
  "crypto_lib \<Rightarrow> 'f sys \<Rightarrow> string \<Rightarrow> string list \<Rightarrow> world \<Rightarrow> (string \<rightharpoonup> 'f)
     \<Rightarrow> (string \<rightharpoonup> 'f) \<times> error option" where
  "save lib sy path order w fs =
     (case save_loop lib w order [] of
        Inl err \<Rightarrow> (fs, Some err)
      | Inr ks \<Rightarrow>
        (case json_MarshalIndent sy ks of
           Inl err \<Rightarrow> (fs, Some (Errorf (''marshal json: '' @ Error err)))
         | Inr data \<Rightarrow>
           (let tmpPath = path @ ''.tmp'' in
            case os_WriteFile sy of
              Some err \<Rightarrow> (fs, Some (Errorf (''write temp file: '' @ Error err)))
            | None \<Rightarrow>
              (let fs1 = fs(tmpPath \<mapsto> data) in
               case os_Rename sy of
                 Some err \<Rightarrow> (fs1, Some (Errorf (''atomic rename: '' @ Error err)))
               | None \<Rightarrow> ((fs1(path := fs1 tmpPath))(tmpPath := None), None)))))"




definition ps_Put ::
  "crypto_lib \<Rightarrow> 'f sys \<Rightarrow> string \<Rightarrow> string list \<Rightarrow> world \<Rightarrow> (string \<rightharpoonup> 'f) \<Rightarrow> addr
     \<Rightarrow> world \<times> (string \<rightharpoonup> 'f) \<times> error option" where
  "ps_Put lib sy path order w fs entry =
     (case Put w entry of
        Inl err \<Rightarrow> (w, fs, Some err)
      | Inr w1 \<Rightarrow> (w1, save lib sy path order w1 fs))"

definition ps_UpdateStatus ::
  "crypto_lib \<Rightarrow> 'f sys \<Rightarrow> string \<Rightarrow> string list \<Rightarrow> world \<Rightarrow> (string \<rightharpoonup> 'f) \<Rightarrow> string
     \<Rightarrow> KeyStatus \<Rightarrow> world \<times> (string \<rightharpoonup> 'f) \<times> error option" where
  "ps_UpdateStatus lib sy path order w fs kid st =
     (case UpdateStatus w kid st of
        Inl err \<Rightarrow> (w, fs, Some err)
      | Inr w1 \<Rightarrow> (w1, save lib sy path order w1 fs))"

definition ps_Delete ::
  "crypto_lib \<Rightarrow> 'f sys \<Rightarrow> string \<Rightarrow> string list \<Rightarrow> world \<Rightarrow> (string \<rightharpoonup> 'f) \<Rightarrow> string
     \<Rightarrow> world \<times> (string \<rightharpoonup> 'f) \<times> error option" where
  "ps_Delete lib sy path order w fs kid =
     (case Delete w kid of
        Inl err \<Rightarrow> (w, fs, Some err)
      | Inr w1 \<Rightarrow> (w1, save lib sy path order w1 fs))"


section \<open>Package audit: the query\<close>






section \<open>A small instance\<close>

text \<open>
  A provider, a library, a codec and a store small enough to evaluate the operations on
  concrete inputs.  The tag of the instance's AEAD is a checksum of key, nonce, additional
  data and text.
\<close>

definition sum_bytes :: "bytes \<Rightarrow> byte" where
  "sum_bytes bs = foldr (+) bs 0"

definition demo_lib :: crypto_lib where
  "demo_lib =
     \<lparr>gcm_seal = (\<lambda>key nonce pt aad. pt @ replicate 16 (sum_bytes (key @ nonce @ aad @ pt))),
      gcm_open = (\<lambda>key nonce ct aad.
         if 16 \<le> length ct \<and>
            drop (length ct - 16) ct =
              replicate 16 (sum_bytes (key @ nonce @ aad @ take (length ct - 16) ct))
         then Some (take (length ct - 16) ct) else None),
      hkdf_sha256 = (\<lambda>secret salt info. replicate 64 (sum_bytes (secret @ salt @ info))),
      x509_MarshalPKCS8PrivateKey = (\<lambda>k. Inr [of_int (D k)]),
      x509_ParsePKCS8PrivateKey = (\<lambda>der.
         case der of
           [b] \<Rightarrow> Inr (ECDSA_key \<lparr>Curve = P256, X = 0, Y = 0, D = uint b\<rparr>)
         | _ \<Rightarrow> Inl (Errorf ''x509: failed to parse private key''))\<rparr>"

definition demo_hsm :: Provider where
  "demo_hsm =
     \<lparr>hsm_GenerateKey = (\<lambda>curve. Inr \<lparr>Curve = curve, X = 0, Y = 0, D = 9\<rparr>),
      hsm_Sign = (\<lambda>k data. Inr (of_int (D k) # data)),
      hsm_Verify = (\<lambda>pub data sig. tl sig = data)\<rparr>"


definition demo_env :: env where
  "demo_env = \<lparr>uuid_NewString = ''k2'', time_Now = 200, time_Now2 = 201, timestamppb_Now = 202\<rparr>"

definition demo_entry :: KeyEntry where
  "demo_entry =
     \<lparr>ID = ''k1'', Algorithm = AlgorithmECDSAP256, Status = StatusActive,
      PrivateKey = \<lparr>Curve = P256, X = 0, Y = 0, D = 7\<rparr>, CreatedAt = 100, RotatedAt = 0,
      Labels = [''env'' \<mapsto> ''test'']\<rparr>"

definition demo_fresh :: world where
  "demo_fresh = \<lparr>heap = [demo_entry], keys = Map.empty, audit = [], published = []\<rparr>"

definition demo_world :: world where
  "demo_world = \<lparr>heap = [demo_entry], keys = [''k1'' \<mapsto> 0], audit = [], published = []\<rparr>"


definition demo_rotated :: world where
  "demo_rotated =
     \<lparr>heap = [demo_entry\<lparr>Status := StatusRotated\<rparr>], keys = [''k1'' \<mapsto> 0], audit = [],
      published = []\<rparr>"


section \<open>The store contract\<close>

lemma Get_fails_iff: "(\<exists>e. Get w kid = Inl e) = (keys w kid = None)"
  by (auto simp: Get_def split: option.splits)

lemma Get_Some: "keys w kid = Some p \<Longrightarrow> Get w kid = Inr p"
  by (simp add: Get_def)

lemma Get_None: "keys w kid = None \<Longrightarrow> Get w kid = Inl ErrKeyNotFound"
  by (simp add: Get_def)

text \<open>
  Claim C6.  \<^verbatim>\<open>Put\<close> of an entry whose identifier is absent succeeds and stores the entry's
  pointer under that identifier; after it, \<^verbatim>\<open>Put\<close> of any entry carrying the same identifier
  fails with the already-exists error and returns no new state, so that \<^verbatim>\<open>Get\<close> still
  yields the first entry.  \<^verbatim>\<open>Get\<close> fails exactly when the identifier is not stored, and then
  with \<^verbatim>\<open>ErrKeyNotFound\<close>.
\<close>

theorem Put_Get_contract:
  "(keys w (ID (heap w ! p)) = None \<longrightarrow>
      (\<exists>w1. Put w p = Inr w1 \<and> heap w1 = heap w \<and> Get w1 (ID (heap w ! p)) = Inr p \<and>
         (\<forall>q. ID (heap w1 ! q) = ID (heap w ! p) \<longrightarrow>
            Put w1 q = Inl (Errorf (''key '' @ ID (heap w ! p) @ '' already exists'')))))
   \<and> ((\<exists>e. Get w kid = Inl e) = (keys w kid = None))
   \<and> (\<forall>e. Get w kid = Inl e \<longrightarrow> e = ErrKeyNotFound)"
  by (auto simp: Put_def Get_def split: option.splits)

theorem Put_Get_contract_witness:
  "keys demo_fresh (ID (heap demo_fresh ! 0)) = None \<and>
   (\<exists>w1. Put demo_fresh 0 = Inr w1 \<and> Get w1 ''k1'' = Inr 0 \<and>
      Put w1 0 = Inl (Errorf ''key k1 already exists'')) \<and>
   Get demo_fresh ''k1'' = Inl ErrKeyNotFound"
  using Put_Get_contract [of demo_fresh 0 "''k1''"]
  by (auto simp: demo_fresh_def demo_entry_def Get_def)

section \<open>The key-management handlers\<close>

lemma keyError_NotFound: "keyError ErrKeyNotFound = StatusError NotFound ''key not found''"
  by (simp add: keyError_def)

lemma wfD: "wf w \<Longrightarrow> keys w kid = Some p \<Longrightarrow> p < length (heap w) \<and> ID (heap w ! p) = kid"
  by (simp add: wf_def)

text \<open>
  The empty store is well formed, and allocation and the three mutations of the store keep it so.
\<close>

lemma wf_NewMemoryStore: "wf NewMemoryStore"
  by (simp add: wf_def NewMemoryStore_def)

lemma wf_alloc: "wf w \<Longrightarrow> wf (snd (alloc w e))"
  by (auto simp: wf_def alloc_def nth_append less_Suc_eq)

lemma wf_Put:
  assumes "wf w" and "entry < length (heap w)" and "Put w entry = Inr w'"
  shows "wf w'"
  using assms by (auto simp: wf_def Put_def split: if_splits)

lemma wf_UpdateStatus:
  assumes "wf w" and "UpdateStatus w kid st = Inr w'"
  shows "wf w'"
proof -
  from assms(2) obtain p where k: "keys w kid = Some p"
    and w': "w' = w\<lparr>heap := (heap w)[p := (heap w ! p)\<lparr>Status := st\<rparr>]\<rparr>"
    by (auto simp: UpdateStatus_def split: option.splits)
  show ?thesis
    unfolding wf_def
  proof (intro allI impI)
    fix kid' q assume "keys w' kid' = Some q"
    then have q: "keys w kid' = Some q" by (simp add: w')
    from wfD [OF assms(1) q] show "q < length (heap w') \<and> ID (heap w' ! q) = kid'"
      by (cases "q = p") (simp_all add: w')
  qed
qed

lemma wf_Delete:
  assumes "wf w" and "Delete w kid = Inr w'"
  shows "wf w'"
  using assms by (auto simp: wf_def Delete_def split: option.splits if_splits)

lemma heap_Log [simp]: "heap (Log w a b c d e) = heap w"
  and keys_Log [simp]: "keys (Log w a b c d e) = keys w"
  by (simp_all add: Log_def)

lemma heap_broadcastEvent [simp]: "heap (broadcastEvent ev w t m) = heap w"
  and keys_broadcastEvent [simp]: "keys (broadcastEvent ev w t m) = keys w"
  by (simp_all add: broadcastEvent_def)

lemma statusToProto_simps:
  "statusToProto StatusActive = KEY_STATUS_ACTIVE"
  "statusToProto StatusRotated = KEY_STATUS_ROTATED"
  "statusToProto StatusDeactivated = KEY_STATUS_DEACTIVATED"
  by (simp_all add: statusToProto_def StatusActive_def StatusRotated_def StatusDeactivated_def)

lemma entryToProto_sel [simp]:
  "KeyId (entryToProto e) = ID e"
  "Status_pb (entryToProto e) = statusToProto (Status e)"
  "Algorithm_pb (entryToProto e) = algoToProto (Algorithm e)"
  "Labels_pb (entryToProto e) = Labels e"
  "CreatedAt_pb (entryToProto e) = CreatedAt e"
  "RotatedAt_pb (entryToProto e) = (if RotatedAt e = 0 then None else Some (RotatedAt e))"
  by (simp_all add: entryToProto_def IsZero_def)

lemma Deactivate_absent: "keys w kid = None \<Longrightarrow>
      DeactivateKey ev w kid = (w, Inl (StatusError NotFound ''key not found''))"
    by (simp add: DeactivateKey_def UpdateStatus_def keyError_NotFound)

lemma Deactivate_present:
  assumes "keys w kid = Some p"
  shows "DeactivateKey ev w kid =
     (Log (broadcastEvent ev (w\<lparr>heap := (heap w)[p := (heap w ! p)\<lparr>Status := StatusDeactivated\<rparr>]\<rparr>)
             KEY_EVENT_TYPE_DEACTIVATED
             (entryToProto ((heap w)[p := (heap w ! p)\<lparr>Status := StatusDeactivated\<rparr>] ! p)))
          ''DeactivateKey'' kid ''OK'' '''' Map.empty,
      Inr (entryToProto ((heap w)[p := (heap w ! p)\<lparr>Status := StatusDeactivated\<rparr>] ! p)))"
  using assms by (simp add: DeactivateKey_def UpdateStatus_def Get_def Let_def)

text \<open>
  Claim C10.  On a stored key \<^verbatim>\<open>DeactivateKey\<close> succeeds whatever the key's status is
  (no status is read before the update): the stored entry's status becomes
  \<^verbatim>\<open>StatusDeactivated\<close>, nothing else in the store changes, and the metadata returned is that
  of the updated entry.  It fails only when the identifier is absent, with \<^verbatim>\<open>NotFound\<close>.
\<close>

theorem DeactivateKey_any_status:
  assumes "wf w"
  shows "(keys w kid = Some p \<longrightarrow>
           (\<exists>w'. DeactivateKey ev w kid =
                    (w', Inr (entryToProto ((heap w ! p)\<lparr>Status := StatusDeactivated\<rparr>))) \<and>
                  keys w' = keys w \<and>
                  heap w' = (heap w)[p := (heap w ! p)\<lparr>Status := StatusDeactivated\<rparr>] \<and>
                  Status (heap w' ! p) = StatusDeactivated \<and>
                  KeyId (entryToProto (heap w' ! p)) = kid \<and>
                  Status_pb (entryToProto (heap w' ! p)) = KEY_STATUS_DEACTIVATED))
       \<and> (keys w kid = None \<longrightarrow>
            DeactivateKey ev w kid = (w, Inl (StatusError NotFound ''key not found'')))
       \<and> (\<forall>w' e. DeactivateKey ev w kid = (w', Inl e) \<longrightarrow>
            keys w kid = None \<and> e = StatusError NotFound ''key not found'')"
proof (cases "keys w kid")
  case None
  then show ?thesis by (simp add: Deactivate_absent)
next
  case (Some q)
  from wfD [OF assms Some] have q: "q < length (heap w)" and i: "ID (heap w ! q) = kid"
    by simp_all
  show ?thesis
    using Some q i by (auto simp: Deactivate_present statusToProto_simps)
qed

theorem DeactivateKey_any_status_witness:
  "wf demo_world \<and> keys demo_world ''k1'' = Some 0 \<and>
   (\<exists>w'. DeactivateKey demo_env demo_world ''k1'' =
            (w', Inr (entryToProto (demo_entry\<lparr>Status := StatusDeactivated\<rparr>))) \<and>
          Status (heap w' ! 0) = StatusDeactivated) \<and>
   keys demo_world ''zz'' = None \<and>
   DeactivateKey demo_env demo_world ''zz'' = (demo_world, Inl (StatusError NotFound ''key not found''))"
proof -
  have w: "wf demo_world"
    by (simp add: wf_def demo_world_def demo_entry_def)
  have k: "keys demo_world ''k1'' = Some 0" "keys demo_world ''zz'' = None"
    by (simp_all add: demo_world_def)
  have h: "heap demo_world ! 0 = demo_entry" by (simp add: demo_world_def)
  note T = DeactivateKey_any_status [OF w, of "''k1''" 0 demo_env]
  from T [THEN conjunct1, THEN mp, OF k(1)] obtain w' where
    a: "DeactivateKey demo_env demo_world ''k1'' =
          (w', Inr (entryToProto ((heap demo_world ! 0)\<lparr>Status := StatusDeactivated\<rparr>)))"
    and b: "Status (heap w' ! 0) = StatusDeactivated"
    by blast
  from a b have 1: "\<exists>w'. DeactivateKey demo_env demo_world ''k1'' =
            (w', Inr (entryToProto (demo_entry\<lparr>Status := StatusDeactivated\<rparr>))) \<and>
          Status (heap w' ! 0) = StatusDeactivated"
    unfolding h by blast
  have 2: "DeactivateKey demo_env demo_world ''zz'' = (demo_world, Inl (StatusError NotFound ''key not found''))"
    using DeactivateKey_any_status [OF w, of "''zz''" 0 demo_env, THEN conjunct2, THEN conjunct1] k(2)
    by simp
  from w k 1 2 show ?thesis by simp
qed

section \<open>The signing handlers\<close>

lemma Sign_absent:
  "keys w kid = None \<Longrightarrow> Sign h w kid data = (w, Inl (StatusError NotFound ''key not found''))"
  by (simp add: Sign_def Get_def keyError_NotFound)

lemma Verify_absent:
  "keys w kid = None \<Longrightarrow> Verify h w kid data sg = (w, Inl (StatusError NotFound ''key not found''))"
  by (simp add: Verify_def Get_def keyError_NotFound)

lemma Sign_inactive:
  "keys w kid = Some p \<Longrightarrow> Status (heap w ! p) \<noteq> StatusActive \<Longrightarrow>
   Sign h w kid data = (w, Inl (StatusError FailedPrecondition ''key is not active''))"
  by (simp add: Sign_def Get_def)

lemma Sign_active:
  "keys w kid = Some p \<Longrightarrow> Status (heap w ! p) = StatusActive \<Longrightarrow>
   Sign h w kid data =
     (case hsm_Sign h (PrivateKey (heap w ! p)) data of
        Inl err \<Rightarrow> (Log w ''Sign'' kid ''ERROR'' '''' Map.empty,
                    Inl (StatusError Internal (''sign: '' @ Error err)))
      | Inr sg \<Rightarrow> (Log w ''Sign'' kid ''OK'' '''' Map.empty,
                   Inr \<lparr>Signature = sg, KeyId_resp = kid\<rparr>))"
  by (simp add: Sign_def Get_def)

lemma Verify_present:
  "keys w kid = Some p \<Longrightarrow>
   Verify h w kid data sg =
     (Log w ''Verify'' kid ''OK'' '''' Map.empty,
      Inr (hsm_Verify h (PublicKey (PrivateKey (heap w ! p))) data sg))"
  by (simp add: Verify_def Get_def)

text \<open>
  Claim C2.  \<^verbatim>\<open>Sign\<close> fails with \<^verbatim>\<open>NotFound\<close> when the identifier is absent and with
  \<^verbatim>\<open>FailedPrecondition\<close> when the key is stored with a status other than active; on an active
  key its result is the provider's (the signature, or \<^verbatim>\<open>Internal\<close> when the provider fails), so
  a signature is only ever returned for an active key.  \<^verbatim>\<open>Verify\<close> reads no status: on every
  stored key it returns the provider's verdict, and it fails only when the identifier is absent,
  with \<^verbatim>\<open>NotFound\<close>.
\<close>

theorem Sign_Verify_status:
  "(keys w kid = None \<longrightarrow>
      Sign h w kid data = (w, Inl (StatusError NotFound ''key not found'')) \<and>
      Verify h w kid data sg = (w, Inl (StatusError NotFound ''key not found'')))
   \<and> (keys w kid = Some p \<longrightarrow> Status (heap w ! p) \<noteq> StatusActive \<longrightarrow>
      Sign h w kid data = (w, Inl (StatusError FailedPrecondition ''key is not active'')))
   \<and> (keys w kid = Some p \<longrightarrow> Status (heap w ! p) = StatusActive \<longrightarrow>
      snd (Sign h w kid data) =
        (case hsm_Sign h (PrivateKey (heap w ! p)) data of
           Inl err \<Rightarrow> Inl (StatusError Internal (''sign: '' @ Error err))
         | Inr s \<Rightarrow> Inr \<lparr>Signature = s, KeyId_resp = kid\<rparr>))
   \<and> (\<forall>w' r. Sign h w kid data = (w', Inr r) \<longrightarrow>
         (\<exists>q. keys w kid = Some q \<and> Status (heap w ! q) = StatusActive))
   \<and> (keys w kid = Some p \<longrightarrow>
         snd (Verify h w kid data sg) =
           Inr (hsm_Verify h (PublicKey (PrivateKey (heap w ! p))) data sg))
   \<and> (\<forall>w' e. Verify h w kid data sg = (w', Inl e) \<longrightarrow>
         keys w kid = None \<and> e = StatusError NotFound ''key not found'')"
proof (cases "keys w kid")
  case None
  then show ?thesis by (simp add: Sign_absent Verify_absent)
next
  case (Some q)
  show ?thesis
  proof (cases "Status (heap w ! q) = StatusActive")
    case True
    with Some show ?thesis
      by (auto simp: Sign_active Verify_present split: sum.splits)
  next
    case False
    with Some show ?thesis
      by (auto simp: Sign_inactive Verify_present)
  qed
qed

theorem Sign_Verify_status_witness:
  "keys demo_rotated ''zz'' = None \<and>
   Sign demo_hsm demo_rotated ''zz'' [1] = (demo_rotated, Inl (StatusError NotFound ''key not found'')) \<and>
   keys demo_rotated ''k1'' = Some 0 \<and> Status (heap demo_rotated ! 0) \<noteq> StatusActive \<and>
   Sign demo_hsm demo_rotated ''k1'' [1] =
     (demo_rotated, Inl (StatusError FailedPrecondition ''key is not active'')) \<and>
   snd (Verify demo_hsm demo_rotated ''k1'' [1] [7, 1]) = Inr True \<and>
   keys demo_world ''k1'' = Some 0 \<and> Status (heap demo_world ! 0) = StatusActive \<and>
   snd (Sign demo_hsm demo_world ''k1'' [1]) = Inr \<lparr>Signature = [7, 1], KeyId_resp = ''k1''\<rparr>"
proof -
  have k: "keys demo_rotated ''zz'' = None" "keys demo_rotated ''k1'' = Some 0"
    "keys demo_world ''k1'' = Some 0"
    by (simp_all add: demo_rotated_def demo_world_def)
  have s: "Status (heap demo_rotated ! 0) \<noteq> StatusActive" "Status (heap demo_world ! 0) = StatusActive"
    by (simp_all add: demo_rotated_def demo_world_def demo_entry_def StatusRotated_def StatusActive_def)
  note A = Sign_Verify_status [of demo_rotated "''zz''" demo_hsm "[1]" "[7, 1]" 0]
  note B = Sign_Verify_status [of demo_rotated "''k1''" demo_hsm "[1]" "[7, 1]" 0]
  note C = Sign_Verify_status [of demo_world "''k1''" demo_hsm "[1]" "[7, 1]" 0]
  have 1: "Sign demo_hsm demo_rotated ''zz'' [1] =
             (demo_rotated, Inl (StatusError NotFound ''key not found''))"
    using A [THEN conjunct1, THEN mp, OF k(1)] by simp
  have 2: "Sign demo_hsm demo_rotated ''k1'' [1] =
     (demo_rotated, Inl (StatusError FailedPrecondition ''key is not active''))"
    using B [THEN conjunct2, THEN conjunct1, THEN mp, THEN mp, OF k(2) s(1)] .
  have 3: "snd (Verify demo_hsm demo_rotated ''k1'' [1] [7, 1]) = Inr True"
    using B [THEN conjunct2, THEN conjunct2, THEN conjunct2, THEN conjunct2, THEN conjunct1,
             THEN mp, OF k(2)]
    by (simp add: demo_hsm_def)
  have 4: "snd (Sign demo_hsm demo_world ''k1'' [1]) = Inr \<lparr>Signature = [7, 1], KeyId_resp = ''k1''\<rparr>"
    using C [THEN conjunct2, THEN conjunct2, THEN conjunct1, THEN mp, THEN mp, OF k(3) s(2)]
    by (simp add: demo_hsm_def demo_world_def demo_entry_def)
  from k s 1 2 3 4 show ?thesis by simp
qed

section \<open>Rotation\<close>







section \<open>The audit query\<close>






section \<open>Key derivation\<close>

lemma demo_lib_simps [simp]:
  "gcm_seal demo_lib key nonce pt aad = pt @ replicate 16 (sum_bytes (key @ nonce @ aad @ pt))"
  "gcm_open demo_lib key nonce ct aad =
     (if 16 \<le> length ct \<and>
         drop (length ct - 16) ct =
           replicate 16 (sum_bytes (key @ nonce @ aad @ take (length ct - 16) ct))
      then Some (take (length ct - 16) ct) else None)"
  "hkdf_sha256 demo_lib secret salt info = replicate 64 (sum_bytes (secret @ salt @ info))"
  "x509_MarshalPKCS8PrivateKey demo_lib k = Inr [of_int (D k)]"
  by (simp_all add: demo_lib_def)

lemma MarshalPrivateKey_Inr:
  "x509_MarshalPKCS8PrivateKey lib k = Inr der \<Longrightarrow> MarshalPrivateKey lib k = Inr der"
  by (simp add: MarshalPrivateKey_def)

lemma crypto_DeriveKey_range:
  "len \<le> 0 \<or> 64 < len \<Longrightarrow>
   crypto_DeriveKey lib root ctx len =
     Inl (Errorf (''invalid derived key length: '' @ itoa len @ '' (must be 1-64)''))"
  by (auto simp: crypto_DeriveKey_def)

lemma crypto_DeriveKey_ok:
  "1 \<le> len \<Longrightarrow> len \<le> 64 \<Longrightarrow> nat len \<le> length (hkdf_sha256 lib root [] ctx) \<Longrightarrow>
   crypto_DeriveKey lib root ctx len = Inr (take (nat len) (hkdf_sha256 lib root [] ctx))"
  by (simp add: crypto_DeriveKey_def io_ReadFull_def)

text \<open>
  Claim C7.  \<^verbatim>\<open>crypto.DeriveKey\<close> takes no input but its three arguments: its result is
  determined by them through the HKDF-SHA256 stream with an empty salt and the context as info.
  It fails when the length is below 1 or above 64, and for a length from 1 to 64 returns the
  first \<open>length\<close> bytes of the stream, exactly \<open>length\<close> of them (the stream of HKDF-SHA256
  holds 8160 bytes; 64 are enough here).  The handler \<^verbatim>\<open>DeriveKey\<close>, on a stored active root,
  answers a length out of range with \<^verbatim>\<open>InvalidArgument\<close> and a length in range with the bytes
  derived from the PKCS#8 encoding of the root.
\<close>

theorem DeriveKey_length:
  "((len \<le> 0 \<or> 64 < len) \<longrightarrow>
      crypto_DeriveKey lib root ctx len =
        Inl (Errorf (''invalid derived key length: '' @ itoa len @ '' (must be 1-64)'')))
   \<and> (1 \<le> len \<and> len \<le> 64 \<longrightarrow> 64 \<le> length (hkdf_sha256 lib root [] ctx) \<longrightarrow>
        crypto_DeriveKey lib root ctx len = Inr (take (nat len) (hkdf_sha256 lib root [] ctx)) \<and>
        (\<exists>derived. crypto_DeriveKey lib root ctx len = Inr derived \<and> int (length derived) = len))
   \<and> (keys w kid = Some p \<longrightarrow> Status (heap w ! p) = StatusActive \<longrightarrow> (len \<le> 0 \<or> 64 < len) \<longrightarrow>
        DeriveKey lib w kid ctx len =
          (w, Inl (StatusError InvalidArgument ''length must be 1-64 bytes'')))
   \<and> (keys w kid = Some p \<longrightarrow> Status (heap w ! p) = StatusActive \<longrightarrow> 1 \<le> len \<and> len \<le> 64 \<longrightarrow>
        x509_MarshalPKCS8PrivateKey lib (PrivateKey (heap w ! p)) = Inr der \<longrightarrow>
        64 \<le> length (hkdf_sha256 lib der [] ctx) \<longrightarrow>
        snd (DeriveKey lib w kid ctx len) = Inr (take (nat len) (hkdf_sha256 lib der [] ctx)))"
proof (intro conjI impI)
  assume "len \<le> 0 \<or> 64 < len"
  then show "crypto_DeriveKey lib root ctx len =
        Inl (Errorf (''invalid derived key length: '' @ itoa len @ '' (must be 1-64)''))"
    by (rule crypto_DeriveKey_range)
next
  assume a: "1 \<le> len \<and> len \<le> 64" "64 \<le> length (hkdf_sha256 lib root [] ctx)"
  then have "nat len \<le> length (hkdf_sha256 lib root [] ctx)" by linarith
  with a show e: "crypto_DeriveKey lib root ctx len = Inr (take (nat len) (hkdf_sha256 lib root [] ctx))"
    by (simp add: crypto_DeriveKey_ok)
  from a show "\<exists>derived. crypto_DeriveKey lib root ctx len = Inr derived \<and> int (length derived) = len"
    unfolding e by (simp add: min_def) linarith
next
  assume "keys w kid = Some p" "Status (heap w ! p) = StatusActive" "len \<le> 0 \<or> 64 < len"
  then show "DeriveKey lib w kid ctx len =
          (w, Inl (StatusError InvalidArgument ''length must be 1-64 bytes''))"
    by (auto simp: DeriveKey_def Get_def)
next
  assume a: "keys w kid = Some p" "Status (heap w ! p) = StatusActive" "1 \<le> len \<and> len \<le> 64"
    "x509_MarshalPKCS8PrivateKey lib (PrivateKey (heap w ! p)) = Inr der"
    "64 \<le> length (hkdf_sha256 lib der [] ctx)"
  then have "nat len \<le> length (hkdf_sha256 lib der [] ctx)" by linarith
  with a have "crypto_DeriveKey lib der ctx len = Inr (take (nat len) (hkdf_sha256 lib der [] ctx))"
    by (simp add: crypto_DeriveKey_ok)
  with a show "snd (DeriveKey lib w kid ctx len) = Inr (take (nat len) (hkdf_sha256 lib der [] ctx))"
    by (simp add: DeriveKey_def Get_def MarshalPrivateKey_Inr)
qed

theorem DeriveKey_length_witness:
  "crypto_DeriveKey demo_lib [1, 2] [3] 0 =
     Inl (Errorf ''invalid derived key length: 0 (must be 1-64)'') \<and>
   crypto_DeriveKey demo_lib [1, 2] [3] 65 =
     Inl (Errorf ''invalid derived key length: 65 (must be 1-64)'') \<and>
   64 \<le> length (hkdf_sha256 demo_lib [1, 2] [] [3]) \<and>
   crypto_DeriveKey demo_lib [1, 2] [3] 4 = Inr (replicate 4 6) \<and>
   keys demo_world ''k1'' = Some 0 \<and> Status (heap demo_world ! 0) = StatusActive \<and>
   DeriveKey demo_lib demo_world ''k1'' [3] 65 =
     (demo_world, Inl (StatusError InvalidArgument ''length must be 1-64 bytes'')) \<and>
   snd (DeriveKey demo_lib demo_world ''k1'' [3] 2) = Inr (replicate 2 10)"
proof -
  have k: "keys demo_world ''k1'' = Some 0" by (simp add: demo_world_def)
  have s: "Status (heap demo_world ! 0) = StatusActive"
    by (simp add: demo_world_def demo_entry_def)
  have m: "x509_MarshalPKCS8PrivateKey demo_lib (PrivateKey (heap demo_world ! 0)) = Inr [7]"
    by (simp add: demo_world_def demo_entry_def)
  have l: "64 \<le> length (hkdf_sha256 demo_lib [1, 2] [] [3])"
    "64 \<le> length (hkdf_sha256 demo_lib [7] [] [3])"
    by simp_all
  have 1: "crypto_DeriveKey demo_lib [1, 2] [3] 0 =
     Inl (Errorf ''invalid derived key length: 0 (must be 1-64)'')"
    using DeriveKey_length [of 0 demo_lib "[1, 2]" "[3]", THEN conjunct1]
    by (simp add: itoa_def digit_def)
  have 2: "crypto_DeriveKey demo_lib [1, 2] [3] 65 =
     Inl (Errorf ''invalid derived key length: 65 (must be 1-64)'')"
    using DeriveKey_length [of 65 demo_lib "[1, 2]" "[3]", THEN conjunct1]
    by (simp add: itoa_def digit_def)
  have 3: "crypto_DeriveKey demo_lib [1, 2] [3] 4 = Inr (replicate 4 6)"
    using DeriveKey_length [of 4 demo_lib "[1, 2]" "[3]", THEN conjunct2, THEN conjunct1,
            THEN mp, THEN mp, OF _ l(1), THEN conjunct1]
    by (simp add: sum_bytes_def)
  have 4: "DeriveKey demo_lib demo_world ''k1'' [3] 65 =
     (demo_world, Inl (StatusError InvalidArgument ''length must be 1-64 bytes''))"
    using DeriveKey_length [of 65 demo_lib _ "[3]" demo_world "''k1''" 0, THEN conjunct2,
            THEN conjunct2, THEN conjunct1, THEN mp, THEN mp, THEN mp, OF k s]
    by simp
  have 5: "snd (DeriveKey demo_lib demo_world ''k1'' [3] 2) = Inr (replicate 2 10)"
    using DeriveKey_length [of 2 demo_lib _ "[3]" demo_world "''k1''" 0 "[7]", THEN conjunct2,
            THEN conjunct2, THEN conjunct2, THEN mp, THEN mp, THEN mp, THEN mp, THEN mp,
            OF k s _ m l(2)]
    by (simp add: sum_bytes_def)
  from k s l(1) 1 2 3 4 5 show ?thesis by simp
qed

section \<open>The symmetric key of an entry\<close>

lemma deriveSymmetricKey_eq:
  assumes "x509_MarshalPKCS8PrivateKey lib (PrivateKey e) = Inr der"
    and "32 \<le> length (hkdf_sha256 lib der [] (bytes_of_string ''vault-aes-gcm''))"
  shows "deriveSymmetricKey lib e =
           Inr (take 32 (hkdf_sha256 lib der [] (bytes_of_string ''vault-aes-gcm'')))"
  using assms
  by (simp add: deriveSymmetricKey_def MarshalPrivateKey_def crypto_DeriveKey_def io_ReadFull_def)

text \<open>
  Claim C3.  For an entry whose private key has the PKCS#8 encoding \<open>der\<close>, the key
  \<^verbatim>\<open>deriveSymmetricKey\<close> produces is the first 32 bytes of the HKDF-SHA256 stream of \<open>der\<close> with
  an empty salt and the info \<^verbatim>\<open>"vault-aes-gcm"\<close>, and it is 32 bytes long; this is the key
  \<^verbatim>\<open>Encrypt\<close> hands to \<^verbatim>\<open>EncryptAESGCM\<close> (on an active key) and \<^verbatim>\<open>Decrypt\<close> hands to
  \<^verbatim>\<open>DecryptAESGCM\<close> (on a key of any status).
\<close>

theorem symmetric_key_derivation:
  "(x509_MarshalPKCS8PrivateKey lib (PrivateKey e) = Inr der \<longrightarrow>
    32 \<le> length (hkdf_sha256 lib der [] (bytes_of_string ''vault-aes-gcm'')) \<longrightarrow>
      deriveSymmetricKey lib e =
        Inr (take 32 (hkdf_sha256 lib der [] (bytes_of_string ''vault-aes-gcm''))) \<and>
      length (take 32 (hkdf_sha256 lib der [] (bytes_of_string ''vault-aes-gcm''))) = 32)
   \<and> (keys w kid = Some p \<longrightarrow> Status (heap w ! p) = StatusActive \<longrightarrow>
       x509_MarshalPKCS8PrivateKey lib (PrivateKey (heap w ! p)) = Inr rootDer \<longrightarrow>
       32 \<le> length (hkdf_sha256 lib rootDer [] (bytes_of_string ''vault-aes-gcm'')) \<longrightarrow>
         snd (Encrypt lib rnd w kid pt aad) =
           (case EncryptAESGCM lib rnd
                   (take 32 (hkdf_sha256 lib rootDer [] (bytes_of_string ''vault-aes-gcm''))) pt aad of
              Inl err \<Rightarrow> Inl (StatusError Internal (''encrypt: '' @ Error err))
            | Inr c \<Rightarrow> Inr \<lparr>Ciphertext = c, KeyId_enc = kid\<rparr>))
   \<and> (keys w kid = Some p \<longrightarrow>
       x509_MarshalPKCS8PrivateKey lib (PrivateKey (heap w ! p)) = Inr rootDer \<longrightarrow>
       32 \<le> length (hkdf_sha256 lib rootDer [] (bytes_of_string ''vault-aes-gcm'')) \<longrightarrow>
         snd (Decrypt lib w kid ct aad) =
           (case DecryptAESGCM lib
                   (take 32 (hkdf_sha256 lib rootDer [] (bytes_of_string ''vault-aes-gcm''))) ct aad of
              Inl err \<Rightarrow> Inl (StatusError InvalidArgument (''decrypt: '' @ Error err))
            | Inr t \<Rightarrow> Inr t))"
  by (auto simp: deriveSymmetricKey_eq Encrypt_def Decrypt_def Get_def split: sum.splits)

theorem symmetric_key_derivation_witness:
  "x509_MarshalPKCS8PrivateKey demo_lib (PrivateKey demo_entry) = Inr [7] \<and>
   32 \<le> length (hkdf_sha256 demo_lib [7] [] (bytes_of_string ''vault-aes-gcm'')) \<and>
   deriveSymmetricKey demo_lib demo_entry =
     Inr (replicate 32 (sum_bytes (7 # bytes_of_string ''vault-aes-gcm''))) \<and>
   keys demo_world ''k1'' = Some 0 \<and> Status (heap demo_world ! 0) = StatusActive \<and>
   snd (Encrypt demo_lib None demo_world ''k1'' [1] [2]) =
     Inl (StatusError Internal ''encrypt: generate nonce: crypto/rand: read failed'') \<and>
   snd (Decrypt demo_lib demo_world ''k1'' [1] [2]) =
     Inl (StatusError InvalidArgument ''decrypt: ciphertext too short'')"
proof -
  have m: "x509_MarshalPKCS8PrivateKey demo_lib (PrivateKey demo_entry) = Inr [7]"
    by (simp add: demo_entry_def)
  have m': "x509_MarshalPKCS8PrivateKey demo_lib (PrivateKey (heap demo_world ! 0)) = Inr [7]"
    by (simp add: demo_world_def demo_entry_def)
  have l: "32 \<le> length (hkdf_sha256 demo_lib [7] [] (bytes_of_string ''vault-aes-gcm''))"
    by simp
  have k: "keys demo_world ''k1'' = Some 0" by (simp add: demo_world_def)
  have s: "Status (heap demo_world ! 0) = StatusActive"
    by (simp add: demo_world_def demo_entry_def)
  note T = symmetric_key_derivation [of demo_lib _ "[7]" demo_world "''k1''" 0 "[7]" _ "[1]" "[2]" "[1]"]
  have 1: "deriveSymmetricKey demo_lib demo_entry =
     Inr (replicate 32 (sum_bytes (7 # bytes_of_string ''vault-aes-gcm'')))"
    using T [of demo_entry None, THEN conjunct1, THEN mp, THEN mp, OF m l, THEN conjunct1]
    by simp
  have 2: "snd (Encrypt demo_lib None demo_world ''k1'' [1] [2]) =
     Inl (StatusError Internal ''encrypt: generate nonce: crypto/rand: read failed'')"
    using T [of demo_entry None, THEN conjunct2, THEN conjunct1, THEN mp, THEN mp, THEN mp, THEN mp,
             OF k s m' l]
    by (simp add: EncryptAESGCM_def aes_NewCipher_def cipher_NewGCM_def rand_Read_def)
  have 3: "snd (Decrypt demo_lib demo_world ''k1'' [1] [2]) =
     Inl (StatusError InvalidArgument ''decrypt: ciphertext too short'')"
    using T [of demo_entry None, THEN conjunct2, THEN conjunct2, THEN mp, THEN mp, THEN mp,
             OF k m' l]
    by (simp add: DecryptAESGCM_def aes_NewCipher_def cipher_NewGCM_def NonceSize_def)
  from m l k s 1 2 3 show ?thesis by simp
qed

section \<open>Authenticated encryption\<close>

lemma add_zero_funpow [simp]: "((+) (0::byte) ^^ n) x = x"
  by (induction n) simp_all
















section \<open>Persistence\<close>









end
